theory Spec2Isabelle
  imports Main "HOL-Library.AList"
begin

section \<open>Python values, dictionaries and errors\<close>

text \<open>
  The event class of \<^verbatim>\<open>cloudevents/pydantic/v2/event.py\<close> stores attribute values of
  any Python type. The values the model distinguishes are \<^verbatim>\<open>None\<close>, booleans, integers,
  text strings, byte strings, timestamps (\<^verbatim>\<open>datetime\<close>, as a number), lists and
  dictionaries with string keys. A string is a list of 8-bit characters; a byte string
  is one too.

  A Python \<^verbatim>\<open>dict\<close> is an association list: insertion-ordered, and with distinct keys
  when it is built by the operations below. \<^verbatim>\<open>d[k] = v\<close> is \<open>AList.update k v d\<close>
  (the value is replaced in place, a new key goes to the end), \<^verbatim>\<open>del d[k]\<close> is
  \<open>AList.delete k d\<close>, \<^verbatim>\<open>d.get(k)\<close> is \<open>map_of d k\<close>.
\<close>

datatype val =
    VNone
  | VBool bool
  | VInt int
  | VStr string
  | VBytes string
  | VTime nat
  | VList "val list"
  | VDict "(string \<times> val) list"

type_synonym dict = "(string \<times> val) list"

definition keys :: "dict \<Rightarrow> string list" where
  "keys d = map fst d"

text \<open>
  Every \<^verbatim>\<open>raise\<close> of the source, and every exception of the Python runtime and of the
  collaborators that the modelled paths can meet, is a value of \<open>error\<close>.
\<close>

datatype error =
    IncompatibleArgumentsError
  | TypeError
  | Base64Error
  | ValidationError "string list"
  | KeyError string
  | AttributeError string
  | ConversionError

subsection \<open>\<^verbatim>\<open>str.lower\<close>\<close>

text \<open>
  \<^verbatim>\<open>k.lower()\<close> on the ASCII range: the letters \<^verbatim>\<open>A\<close> to \<^verbatim>\<open>Z\<close> move to \<^verbatim>\<open>a\<close> to
  \<^verbatim>\<open>z\<close>, every other character stays.
\<close>

definition lower_char :: "char \<Rightarrow> char" where
  "lower_char c =
     (case map_of (zip ''ABCDEFGHIJKLMNOPQRSTUVWXYZ'' ''abcdefghijklmnopqrstuvwxyz'') c of
        Some l \<Rightarrow> l
      | None \<Rightarrow> c)"

definition lower :: "string \<Rightarrow> string" where
  "lower s = map lower_char s"

text \<open>
  The dictionary comprehension \<^verbatim>\<open>{k.lower(): v for k, v in attributes.items()}\<close>:
  the items are stored one after the other, so of two keys that differ only in case the
  later value wins and the earlier position is kept.
\<close>

definition lower_keys :: "dict \<Rightarrow> dict" where
  "lower_keys attributes = foldl (\<lambda>d (k, v). AList.update (lower k) v d) [] attributes"

text \<open>\<^verbatim>\<open>kwargs.update(attributes)\<close>.\<close>

definition dict_update :: "dict \<Rightarrow> dict \<Rightarrow> dict" where
  "dict_update kwargs attributes = foldl (\<lambda>d (k, v). AList.update k v d) kwargs attributes"

section \<open>The collaborators\<close>

text \<open>
  The source calls functions that are not part of the file. Those that construction
  needs are collected in one record, a parameter of the model:
  \<^item> \<open>default_id\<close>, \<open>default_time\<close>: what \<^verbatim>\<open>default_id_selection_algorithm()\<close> and
    \<^verbatim>\<open>default_time_selection_algorithm()\<close> of \<^verbatim>\<open>cloudevents.sdk.event.attribute\<close>
    return at this construction;
  \<^item> \<open>spec_versions\<close>: the values of the enumeration \<^verbatim>\<open>attribute.SpecVersion\<close>;
  \<^item> \<open>parse_time\<close>: the framework's conversion to a \<^verbatim>\<open>datetime\<close> of a value that is
    neither \<^verbatim>\<open>None\<close> nor a \<^verbatim>\<open>datetime\<close>;
  \<^item> \<open>b64decode\<close>: \<^verbatim>\<open>base64.b64decode\<close> on the characters of its argument, \<open>None\<close>
    when it raises.

  The codec of \<^verbatim>\<open>cloudevents.conversion\<close> (\<^verbatim>\<open>best_effort_encode_attribute_value\<close>,
  \<^verbatim>\<open>to_json\<close>) and \<^verbatim>\<open>json.loads\<close> are arguments of the two functions that call them.
\<close>

record env =
  default_id :: string
  default_time :: nat
  spec_versions :: "string list"
  parse_time :: "val \<Rightarrow> nat option"
  b64decode :: "string \<Rightarrow> string option"

text \<open>
  Modelled from the spec: \<^verbatim>\<open>attribute.DEFAULT_SPECVERSION\<close>, which is not part of the
  file; the spec gives the default of \<^verbatim>\<open>specversion\<close> as the fixed constant \<^verbatim>\<open>"1.0"\<close>.
\<close>

definition DEFAULT_SPECVERSION :: string where
  "DEFAULT_SPECVERSION = ''1.0''"

section \<open>The event class\<close>

text \<open>
  An event is the attributes that the instance stores, in one key space: the declared
  fields of the class and the extension attributes that \<^verbatim>\<open>extra="allow"\<close> admits. The
  framework keeps the two apart: the declared fields are in \<^verbatim>\<open>self.__dict__\<close>, the
  extension attributes in \<^verbatim>\<open>self.__pydantic_extra__\<close>. A key is in the first when it is
  the name of a declared field and in the second otherwise, so both are read off the
  event (\<open>instance_dict\<close> and \<open>pydantic_extra\<close> below).
\<close>

type_synonym event = dict

subsection \<open>The declared fields\<close>

text \<open>
  The class declares nine fields, each with an annotation and with a default, a default
  factory, or neither (a required field).
\<close>

datatype ftype = TAny | TStr | TOptStr | TSpecVersion | TOptTime

datatype fdefault = Required | Default val | DefaultIdFactory | DefaultTimeFactory

definition model_fields :: "(string \<times> ftype \<times> fdefault) list" where
  "model_fields =
     [(''data'', TAny, Default VNone),
      (''source'', TStr, Required),
      (''id'', TStr, DefaultIdFactory),
      (''type'', TStr, Required),
      (''specversion'', TSpecVersion, Default (VStr DEFAULT_SPECVERSION)),
      (''time'', TOptTime, DefaultTimeFactory),
      (''subject'', TOptStr, Default VNone),
      (''datacontenttype'', TOptStr, Default VNone),
      (''dataschema'', TOptStr, Default VNone)]"

definition field_names :: "string list" where
  "field_names = map fst model_fields"

text \<open>
  Modelled from the spec: the field validation of the hosting framework, which is not
  part of the file. A value is accepted for a field when it has the type the data model
  of the spec gives the field: \<^verbatim>\<open>data\<close> takes any value, \<^verbatim>\<open>source\<close>, \<^verbatim>\<open>id\<close> and
  \<^verbatim>\<open>type\<close> take a string, \<^verbatim>\<open>specversion\<close> a value of the enumeration, \<^verbatim>\<open>time\<close> a
  timestamp, \<^verbatim>\<open>None\<close> or a value the framework converts to a timestamp, the other three
  a string or \<^verbatim>\<open>None\<close>. \<open>None\<close> is a validation failure.
\<close>

fun coerce :: "env \<Rightarrow> ftype \<Rightarrow> val \<Rightarrow> val option" where
  "coerce env TAny v = Some v"
| "coerce env TStr (VStr s) = Some (VStr s)"
| "coerce env TStr v = None"
| "coerce env TOptStr VNone = Some VNone"
| "coerce env TOptStr (VStr s) = Some (VStr s)"
| "coerce env TOptStr v = None"
| "coerce env TSpecVersion (VStr s) = (if s \<in> set (spec_versions env) then Some (VStr s) else None)"
| "coerce env TSpecVersion v = None"
| "coerce env TOptTime VNone = Some VNone"
| "coerce env TOptTime (VTime t) = Some (VTime t)"
| "coerce env TOptTime v = map_option VTime (parse_time env v)"

definition default_value :: "env \<Rightarrow> fdefault \<Rightarrow> val option" where
  "default_value env dflt =
     (case dflt of
        Required \<Rightarrow> None
      | Default v \<Rightarrow> Some v
      | DefaultIdFactory \<Rightarrow> Some (VStr (default_id env))
      | DefaultTimeFactory \<Rightarrow> Some (VTime (default_time env)))"

text \<open>
  One field of the input: the supplied value is validated, an absent one is replaced by
  the default (which is not validated); \<open>None\<close> when the field is violated.
\<close>

definition validate_field :: "env \<Rightarrow> dict \<Rightarrow> string \<times> ftype \<times> fdefault \<Rightarrow> val option" where
  "validate_field env d f =
     (case f of (name, ty, dflt) \<Rightarrow>
        (case map_of d name of
           Some v \<Rightarrow> coerce env ty v
         | None \<Rightarrow> default_value env dflt))"

definition field_errors :: "env \<Rightarrow> dict \<Rightarrow> string list" where
  "field_errors env d =
     concat (map (\<lambda>f. case validate_field env d f of None \<Rightarrow> [fst f] | Some v \<Rightarrow> []) model_fields)"

definition field_values :: "env \<Rightarrow> dict \<Rightarrow> dict" where
  "field_values env d =
     concat (map (\<lambda>f. case validate_field env d f of None \<Rightarrow> [] | Some v \<Rightarrow> [(fst f, v)]) model_fields)"

definition extras :: "dict \<Rightarrow> dict" where
  "extras d = filter (\<lambda>(k, v). k \<notin> set field_names) d"

text \<open>
  Validation of the whole input: every violated field is listed in the one
  \<^verbatim>\<open>ValidationError\<close>; on success the instance holds the declared fields, in the order
  of their declaration, and then the keys that are not declared, as they came.
  An input that is not a dictionary is not a model.
\<close>

fun validate_fields :: "env \<Rightarrow> val \<Rightarrow> error + event" where
  "validate_fields env (VDict d) =
     (if field_errors env d = [] then Inr (field_values env d @ extras d)
      else Inl (ValidationError (field_errors env d)))"
| "validate_fields env v = Inl (ValidationError [])"

subsection \<open>\<^verbatim>\<open>check_base64_data_input\<close>\<close>

text \<open>
  \<^verbatim>\<open>base64.b64decode\<close> takes a text or a byte string; any other value is a
  \<^verbatim>\<open>TypeError\<close>.
\<close>

fun b64decode_val :: "env \<Rightarrow> val \<Rightarrow> error + string" where
  "b64decode_val env (VStr s) = (case b64decode env s of None \<Rightarrow> Inl Base64Error | Some b \<Rightarrow> Inr b)"
| "b64decode_val env (VBytes s) = (case b64decode env s of None \<Rightarrow> Inl Base64Error | Some b \<Rightarrow> Inr b)"
| "b64decode_val env v = Inl TypeError"

text \<open>
  The hook that runs before the fields are validated. It acts on a dictionary whose
  \<^verbatim>\<open>data_base64\<close> entry is present and not \<^verbatim>\<open>None\<close>: the decoded bytes go to \<^verbatim>\<open>data\<close>
  and the \<^verbatim>\<open>data_base64\<close> entry is deleted. Every other input is returned as it is.
\<close>

fun check_base64_data_input :: "env \<Rightarrow> val \<Rightarrow> error + val" where
  "check_base64_data_input env (VDict d) =
     (case map_of d ''data_base64'' of
        None \<Rightarrow> Inr (VDict d)
      | Some VNone \<Rightarrow> Inr (VDict d)
      | Some v \<Rightarrow>
          (case b64decode_val env v of
             Inl e \<Rightarrow> Inl e
           | Inr b \<Rightarrow> Inr (VDict (AList.delete ''data_base64'' (AList.update ''data'' (VBytes b) d)))))"
| "check_base64_data_input env v = Inr v"

subsection \<open>Construction\<close>

text \<open>
  \<^verbatim>\<open>BaseModel.__init__(**data)\<close>: the hook declared with \<^verbatim>\<open>mode="before"\<close>, then the
  validation of the fields.
\<close>

definition model_validate :: "env \<Rightarrow> val \<Rightarrow> error + event" where
  "model_validate env inp =
     (case check_base64_data_input env inp of
        Inl e \<Rightarrow> Inl e
      | Inr inp' \<Rightarrow> validate_fields env inp')"

text \<open>
  The call \<^verbatim>\<open>super().__init__(data=data, **kwargs)\<close>. Python refuses a call that gives
  one keyword twice, so \<^verbatim>\<open>kwargs\<close> with a key \<^verbatim>\<open>data\<close> is a \<^verbatim>\<open>TypeError\<close>; that key can
  only come from the attribute mapping, since a keyword \<^verbatim>\<open>data\<close> of the caller binds to
  the parameter \<^verbatim>\<open>data\<close>.
\<close>

definition base_init :: "env \<Rightarrow> val \<Rightarrow> dict \<Rightarrow> error + event" where
  "base_init env data kwargs =
     (if ''data'' \<in> set (keys kwargs) then Inl TypeError
      else model_validate env (VDict ((''data'', data) # kwargs)))"

text \<open>
  \<^verbatim>\<open>CloudEvent.__init__(self, attributes=None, data=None, **kwargs)\<close>. The test
  \<^verbatim>\<open>if attributes:\<close> holds for a mapping that is given and not empty.
\<close>

definition init :: "env \<Rightarrow> dict option \<Rightarrow> val \<Rightarrow> dict \<Rightarrow> error + event" where
  "init env attributes data kwargs =
     (case attributes of
        None \<Rightarrow> base_init env data kwargs
      | Some a \<Rightarrow>
          (if a \<noteq> [] then
             (if length kwargs \<noteq> 0 then Inl IncompatibleArgumentsError
              else base_init env data (dict_update kwargs (lower_keys a)))
           else base_init env data kwargs))"

text \<open>The class method \<^verbatim>\<open>create\<close>: \<^verbatim>\<open>cls(attributes, data)\<close>.\<close>

definition create :: "env \<Rightarrow> dict \<Rightarrow> val \<Rightarrow> error + event" where
  "create env attributes data = init env (Some attributes) data []"

subsection \<open>Reading\<close>

text \<open>
  \<^verbatim>\<open>self.__dict__\<close> holds the stored attributes that are declared fields, and
  \<^verbatim>\<open>self.__pydantic_extra__\<close> the others.
\<close>

definition instance_dict :: "event \<Rightarrow> dict" where
  "instance_dict e = filter (\<lambda>(key, value). key \<in> set field_names) e"

definition pydantic_extra :: "event \<Rightarrow> dict" where
  "pydantic_extra e = filter (\<lambda>(key, value). key \<notin> set field_names) e"

text \<open>
  \<^verbatim>\<open>_get_attributes\<close>: every item of \<^verbatim>\<open>self.__dict__\<close> whose key is not in the list
  \<^verbatim>\<open>["data", "base64_data"]\<close>, its value encoded.
\<close>

definition get_attributes :: "(val \<Rightarrow> val) \<Rightarrow> event \<Rightarrow> dict" where
  "get_attributes best_effort_encode_attribute_value e =
     map (\<lambda>(key, value). (key, best_effort_encode_attribute_value value))
       (filter (\<lambda>(key, value). key \<notin> set [''data'', ''base64_data'']) (instance_dict e))"

text \<open>\<^verbatim>\<open>get_data\<close> reads the attribute \<^verbatim>\<open>data\<close> of the instance.\<close>

definition get_data :: "event \<Rightarrow> error + val" where
  "get_data e =
     (case map_of e ''data'' of
        None \<Rightarrow> Inl (AttributeError ''data'')
      | Some v \<Rightarrow> Inr v)"

text \<open>
  \<^verbatim>\<open>_ce_json_dumps\<close>: \<^verbatim>\<open>json.loads(conversion.to_json(self))\<close>; an exception of either
  call leaves the hook.
\<close>

definition ce_json_dumps ::
  "(event \<Rightarrow> error + string) \<Rightarrow> (string \<Rightarrow> error + val) \<Rightarrow> event \<Rightarrow> error + val" where
  "ce_json_dumps to_json json_loads e =
     (case to_json e of
        Inl err \<Rightarrow> Inl err
      | Inr bytes \<Rightarrow> json_loads bytes)"

subsection \<open>Mutation\<close>

text \<open>
  \<^verbatim>\<open>setattr\<close> on an instance that allows extra attributes and does not validate
  assignments stores the value, a declared field in \<^verbatim>\<open>self.__dict__\<close> and any other
  key in \<^verbatim>\<open>self.__pydantic_extra__\<close>; \<^verbatim>\<open>delattr\<close> removes an attribute that is in
  one of the two and raises \<^verbatim>\<open>AttributeError\<close> for one that is in neither.
\<close>

definition setattr :: "event \<Rightarrow> string \<Rightarrow> val \<Rightarrow> error + event" where
  "setattr e key v = Inr (AList.update key v e)"

definition delattr :: "event \<Rightarrow> string \<Rightarrow> error + event" where
  "delattr e key =
     (if key \<in> set (keys e) then Inr (AList.delete key e)
      else Inl (AttributeError key))"

definition setitem :: "event \<Rightarrow> string \<Rightarrow> val \<Rightarrow> error + event" where
  "setitem e key v =
     (if key \<noteq> ''data'' then setattr e key v
      else Inr e)"

definition delitem :: "event \<Rightarrow> string \<Rightarrow> error + event" where
  "delitem e key =
     (if key = ''data'' then Inl (KeyError key)
      else delattr e key)"

section \<open>An example environment\<close>

text \<open>
  A concrete instance of the collaborators, for evaluating the model on concrete inputs.
  Its decoder is the standard padded base64 alphabet, decoded four characters at a time.
\<close>

definition b64_alphabet :: string where
  "b64_alphabet = ''ABCDEFGHIJKLMNOPQRSTUVWXYZabcdefghijklmnopqrstuvwxyz0123456789+/''"

definition b64_index :: "char \<Rightarrow> nat option" where
  "b64_index c = map_of (zip b64_alphabet [0 ..< 64]) c"

definition sextets :: "string \<Rightarrow> nat list option" where
  "sextets s = (if list_all (\<lambda>c. b64_index c \<noteq> None) s then Some (map (\<lambda>c. the (b64_index c)) s) else None)"

fun b64_quads :: "string \<Rightarrow> nat list option" where
  "b64_quads [] = Some []"
| "b64_quads (a # b # c # d # rest) =
     (if rest = [] \<and> d = CHR ''=''
      then (if c = CHR ''=''
            then (case sextets [a, b] of
                    Some [x, y] \<Rightarrow> Some [x * 4 + y div 16]
                  | _ \<Rightarrow> None)
            else (case sextets [a, b, c] of
                    Some [x, y, z] \<Rightarrow> Some [x * 4 + y div 16, (y mod 16) * 16 + z div 4]
                  | _ \<Rightarrow> None))
      else (case (sextets [a, b, c, d], b64_quads rest) of
              (Some [x, y, z, w], Some bs) \<Rightarrow>
                Some ([x * 4 + y div 16, (y mod 16) * 16 + z div 4, (z mod 4) * 64 + w] @ bs)
            | _ \<Rightarrow> None))"
| "b64_quads s = None"

definition b64decode_std :: "string \<Rightarrow> string option" where
  "b64decode_std s = map_option (map char_of) (b64_quads s)"

definition example_env :: env where
  "example_env =
     \<lparr> default_id = ''b96267e2-87be-4f7a-b87c-82f64360d954'',
       default_time = 1700000000,
       spec_versions = [''0.3'', ''1.0''],
       parse_time = (\<lambda>v. case v of VInt i \<Rightarrow> (if 0 \<le> i then Some (nat i) else None) | _ \<Rightarrow> None),
       b64decode = b64decode_std \<rparr>"

text \<open>
  The event that construction from \<^verbatim>\<open>{"type": "t", "source": "s"}\<close> gives in the example
  environment, the same event with the payload \<^verbatim>\<open>b"xyz"\<close>, and with an extension attribute.
\<close>

definition minimal_event :: event where
  "minimal_event =
     [(''data'', VNone), (''source'', VStr ''s''),
      (''id'', VStr ''b96267e2-87be-4f7a-b87c-82f64360d954''), (''type'', VStr ''t''),
      (''specversion'', VStr ''1.0''), (''time'', VTime 1700000000), (''subject'', VNone),
      (''datacontenttype'', VNone), (''dataschema'', VNone)]"

definition decoded_event :: event where
  "decoded_event = AList.update ''data'' (VBytes ''xyz'') minimal_event"

definition extended_event :: "string \<Rightarrow> val \<Rightarrow> event" where
  "extended_event key v = minimal_event @ [(key, v)]"

section \<open>Facts about the model\<close>

lemmas eval_defs =
  init_def base_init_def keys_def lower_keys_def dict_update_def lower_def lower_char_def
  model_validate_def example_env_def field_errors_def field_values_def model_fields_def
  validate_field_def extras_def field_names_def default_value_def DEFAULT_SPECVERSION_def
  minimal_event_def extended_event_def decoded_event_def

lemma set_keys: "set (keys d) = fst ` set d"
  by (simp add: keys_def)

lemma b64decode_std_xyz: "b64decode_std ''eHl6'' = Some ''xyz''"
  by code_simp

lemma base_init_not_incompatible: "base_init env data kwargs \<noteq> Inl IncompatibleArgumentsError"
  by (auto simp add: base_init_def model_validate_def
      split: sum.splits val.splits option.splits if_splits
      elim!: check_base64_data_input.elims validate_fields.elims b64decode_val.elims)

subsection \<open>Keys and lookups\<close>






lemma map_of_fold_update:
  "map_of (foldl (\<lambda>d (k, v). AList.update k v d) acc a) = map_of acc ++ map_of (rev a)"
proof (induction a arbitrary: acc)
  case Nil
  show ?case by simp
next
  case (Cons x a)
  obtain k v where x: "x = (k, v)" by (cases x)
  show ?case by (simp add: x Cons.IH update_conv' map_add_def fun_eq_iff split: option.splits)
qed

lemma map_of_dict_update_empty: "map_of (dict_update [] a) = map_of (rev a)"
  by (simp add: dict_update_def map_of_fold_update)

lemma field_names_eq: "field_names = [''data'', ''source'', ''id'', ''type'', ''specversion'', ''time'',
   ''subject'', ''datacontenttype'', ''dataschema'']"
  by (simp add: field_names_def model_fields_def)

lemma values_of_no_errors:
  "concat (map (\<lambda>f. case g f of None \<Rightarrow> [fst f] | Some v \<Rightarrow> []) fs) = [] \<Longrightarrow>
   concat (map (\<lambda>f. case g f of None \<Rightarrow> [] | Some v \<Rightarrow> [(fst f, v)]) fs) = map (\<lambda>f. (fst f, the (g f))) fs"
  by (induction fs) (auto split: option.splits)

lemma field_values_no_errors:
  "field_errors env d = [] \<Longrightarrow>
   field_values env d = map (\<lambda>f. (fst f, the (validate_field env d f))) model_fields"
  unfolding field_errors_def field_values_def by (rule values_of_no_errors)

lemma keys_field_values:
  "field_errors env d = [] \<Longrightarrow> keys (field_values env d) = field_names"
  by (simp add: field_values_no_errors keys_def field_names_def comp_def)

lemma keys_validate_fields:
  "validate_fields env (VDict d) = Inr e \<Longrightarrow> keys e = field_names @ keys (extras d)"
  using keys_field_values[of env d] by (auto simp add: keys_def split: if_splits)

lemma data_validate_fields:
  "validate_fields env (VDict d) = Inr e \<Longrightarrow> map_of d ''data'' = Some v \<Longrightarrow> map_of e ''data'' = Some v"
  by (auto simp add: field_values_no_errors model_fields_def validate_field_def split: if_splits)

lemma keys_extras: "set (keys (extras d)) = set (keys d) - set field_names"
  by (auto simp add: extras_def keys_def)

subsection \<open>The hook and construction\<close>


lemma hook_decodes:
  "map_of d ''data_base64'' = Some v \<Longrightarrow> v \<noteq> VNone \<Longrightarrow> b64decode_val env v = Inr b \<Longrightarrow>
   check_base64_data_input env (VDict d)
     = Inr (VDict (AList.delete ''data_base64'' (AList.update ''data'' (VBytes b) d)))"
  by (cases v) simp_all




lemma field_errors_hook:
  "field_errors env (AList.delete ''data_base64'' (AList.update ''data'' x ((''data'', d) # kw)))
     = field_errors env kw"
  by (simp add: field_errors_def model_fields_def validate_field_def delete_conv' update_conv'
      default_value_def split: option.splits)

lemma data_base64_not_extra:
  "''data_base64'' \<notin> set (keys (extras (AList.delete ''data_base64'' d)))"
  using keys_extras [of "AList.delete ''data_base64'' d"]
  by (simp add: set_keys delete_notin_dom)

lemma keys_get_attributes:
  "keys (get_attributes enc e) =
     filter (\<lambda>k. k \<in> set field_names \<and> k \<notin> set [''data'', ''base64_data'']) (keys e)"
  by (induction e) (auto simp add: get_attributes_def instance_dict_def keys_def)

lemma base_init_decodes:
  assumes look: "map_of kw ''data_base64'' = Some (VStr s)" and dec: "b64decode env s = Some b"
    and ok: "base_init env data kw = Inr e"
  shows "map_of e ''data'' = Some (VBytes b) \<and> ''data_base64'' \<notin> set (keys e)"
proof -
  let ?d = "AList.delete ''data_base64'' (AList.update ''data'' (VBytes b) ((''data'', data) # kw))"
  have m: "map_of ((''data'', data) # kw) ''data_base64'' = Some (VStr s)"
    using look by simp
  have hook: "check_base64_data_input env (VDict ((''data'', data) # kw)) = Inr (VDict ?d)"
    by (rule hook_decodes [OF m]) (simp_all add: dec)
  from ok have v: "validate_fields env (VDict ?d) = Inr e"
    using hook by (simp add: base_init_def model_validate_def split: if_splits)
  have "map_of ?d ''data'' = Some (VBytes b)"
    by (simp add: delete_conv' update_conv')
  from data_validate_fields [OF v this] have 1: "map_of e ''data'' = Some (VBytes b)" .
  have "keys e = field_names @ keys (extras ?d)"
    by (rule keys_validate_fields [OF v])
  then have 2: "''data_base64'' \<notin> set (keys e)"
    using data_base64_not_extra [of "AList.update ''data'' (VBytes b) ((''data'', data) # kw)"]
    by (simp add: field_names_eq)
  from 1 2 show ?thesis ..
qed

lemma base_init_succeeds:
  assumes look: "map_of kw ''data_base64'' = Some (VStr s)" and dec: "b64decode env s = Some b"
    and nodata: "''data'' \<notin> set (keys kw)" and valid: "field_errors env kw = []"
  shows "\<exists>e. base_init env data kw = Inr e"
proof -
  let ?d = "AList.delete ''data_base64'' (AList.update ''data'' (VBytes b) ((''data'', data) # kw))"
  have m: "map_of ((''data'', data) # kw) ''data_base64'' = Some (VStr s)"
    using look by simp
  have hook: "check_base64_data_input env (VDict ((''data'', data) # kw)) = Inr (VDict ?d)"
    by (rule hook_decodes [OF m]) (simp_all add: dec)
  have "field_errors env ?d = []"
    using valid by (simp only: field_errors_hook)
  then show ?thesis
    using hook nodata by (simp add: base_init_def model_validate_def)
qed


lemma update_new_key: "k \<notin> fst ` set d \<Longrightarrow> AList.update k v d = d @ [(k, v)]"
  by (induction d) auto

lemma fold_update_distinct:
  "distinct (map fst (acc @ a)) \<Longrightarrow> foldl (\<lambda>d (k, v). AList.update k v d) acc a = acc @ a"
proof (induction a arbitrary: acc)
  case Nil
  show ?case by simp
next
  case (Cons x a)
  obtain k v where x: "x = (k, v)" by (cases x)
  from Cons.prems have "k \<notin> fst ` set acc" by (auto simp add: x)
  then have u: "AList.update k v acc = acc @ [(k, v)]" by (rule update_new_key)
  from Cons.prems have "distinct (map fst ((acc @ [(k, v)]) @ a))" by (simp add: x)
  from Cons.IH [OF this] show ?case by (simp add: x u)
qed

lemma distinct_fold_update:
  "distinct (map fst acc) \<Longrightarrow> distinct (map fst (foldl (\<lambda>d (k, v). AList.update (f k) v d) acc a))"
proof (induction a arbitrary: acc)
  case Nil
  then show ?case by simp
next
  case (Cons x a)
  obtain k v where x: "x = (k, v)" by (cases x)
  show ?case using Cons.prems by (simp add: x Cons.IH distinct_update)
qed

lemma distinct_lower_keys: "distinct (keys (lower_keys a))"
  using distinct_fold_update [of "[]" lower a] by (simp add: lower_keys_def keys_def)

lemma dict_update_lower_keys: "dict_update [] (lower_keys a) = lower_keys a"
  using fold_update_distinct [of "[]" "lower_keys a"] distinct_lower_keys [of a]
  by (simp add: dict_update_def keys_def)

lemma init_mapping: "a \<noteq> [] \<Longrightarrow> init env (Some a) data [] = base_init env data (lower_keys a)"
  by (simp add: init_def dict_update_lower_keys)

subsection \<open>Reading and mutation\<close>

lemma get_data_update_other: "key \<noteq> ''data'' \<Longrightarrow> get_data (AList.update key v e) = get_data e"
  by (simp add: get_data_def update_conv')

lemma map_of_get_attributes:
  "map_of (get_attributes enc e) k =
     (if k \<in> set field_names \<and> k \<notin> set [''data'', ''base64_data'']
      then map_option enc (map_of e k) else None)"
  by (induction e) (auto simp add: get_attributes_def instance_dict_def)

lemma instance_dict_extra_keys:
  "set (keys e) = set (keys (instance_dict e)) \<union> set (keys (pydantic_extra e))"
  by (auto simp add: instance_dict_def pydantic_extra_def keys_def)

lemma delitem_data: "delitem e ''data'' = Inl (KeyError ''data'')"
  by (simp add: delitem_def)

lemma delitem_existing:
  "key \<noteq> ''data'' \<Longrightarrow> key \<in> set (keys e) \<Longrightarrow>
   delitem e key = Inr (AList.delete key e) \<and> key \<notin> set (keys (get_attributes enc (AList.delete key e)))"
  by (simp add: delitem_def delattr_def keys_get_attributes set_keys delete_notin_dom)

lemma delitem_missing:
  "key \<noteq> ''data'' \<Longrightarrow> key \<notin> set (keys e) \<Longrightarrow> delitem e key = Inl (AttributeError key)"
  by (simp add: delitem_def delattr_def)

section \<open>Properties\<close>

text \<open>
  C1. Construction with a non-empty attribute mapping and at least one keyword field
  raises \<^verbatim>\<open>IncompatibleArgumentsError\<close> (the result is the error, no event);
  construction with an attribute mapping and no keyword field, and construction with
  keyword fields and no mapping, do not raise this error.
\<close>

theorem init_incompatible_arguments:
  "(a \<noteq> [] \<and> kwargs \<noteq> [] \<longrightarrow> init env (Some a) data kwargs = Inl IncompatibleArgumentsError)
   \<and> init env (Some a) data [] \<noteq> Inl IncompatibleArgumentsError
   \<and> init env None data kwargs \<noteq> Inl IncompatibleArgumentsError"
  by (simp add: init_def base_init_not_incompatible)

theorem init_incompatible_arguments_witness:
  "[(''source'', VStr ''s'')] \<noteq> [] \<and> [(''type'', VStr ''x'')] \<noteq> []
   \<and> init example_env (Some [(''source'', VStr ''s'')]) VNone [(''type'', VStr ''x'')]
       = Inl IncompatibleArgumentsError"
  using init_incompatible_arguments [of "[(''source'', VStr ''s'')]" "[(''type'', VStr ''x'')]" example_env VNone]
  by simp

text \<open>
  C2. Let the attribute mapping, with its keys normalized, have under \<^verbatim>\<open>data_base64\<close> a
  text that is the base64 encoding of the bytes \<open>b\<close>, that is, a text the decoder maps to
  \<open>b\<close>. Then every event the construction returns has the payload \<open>b\<close>, its attribute
  map has no key \<^verbatim>\<open>data_base64\<close>, and the event does not store \<^verbatim>\<open>data_base64\<close> beside
  \<^verbatim>\<open>data\<close>. The construction does return an event when the mapping has no key
  \<^verbatim>\<open>data\<close> of its own and its declared fields are valid.
\<close>

theorem init_data_base64:
  assumes "map_of (lower_keys a) ''data_base64'' = Some (VStr s)"
    and "b64decode env s = Some b"
  shows "(\<forall>e. init env (Some a) data [] = Inr e \<longrightarrow>
            get_data e = Inr (VBytes b)
            \<and> ''data_base64'' \<notin> set (keys (get_attributes enc e))
            \<and> ''data_base64'' \<notin> set (keys e))
         \<and> (''data'' \<notin> set (keys (lower_keys a)) \<and> field_errors env (lower_keys a) = []
              \<longrightarrow> (\<exists>e. init env (Some a) data [] = Inr e))"
proof -
  from assms(1) have ne: "a \<noteq> []" by (auto simp add: lower_keys_def)
  have i: "init env (Some a) data [] = base_init env data (lower_keys a)"
    by (rule init_mapping [OF ne])
  show ?thesis
    using base_init_decodes [OF assms(1) assms(2), of data] base_init_succeeds [OF assms(1) assms(2), of data]
    by (auto simp add: i get_data_def keys_get_attributes)
qed

theorem init_data_base64_witness:
  "map_of (lower_keys [(''type'', VStr ''t''), (''source'', VStr ''s''), (''data_base64'', VStr ''eHl6'')])
       ''data_base64'' = Some (VStr ''eHl6'')
   \<and> b64decode example_env ''eHl6'' = Some ''xyz''
   \<and> init example_env (Some [(''type'', VStr ''t''), (''source'', VStr ''s''), (''data_base64'', VStr ''eHl6'')])
         VNone [] = Inr decoded_event
   \<and> get_data decoded_event = Inr (VBytes ''xyz'')
   \<and> ''data_base64'' \<notin> set (keys (get_attributes (\<lambda>v. v) decoded_event))
   \<and> ''data_base64'' \<notin> set (keys decoded_event)"
proof -
  have h1: "map_of (lower_keys [(''type'', VStr ''t''), (''source'', VStr ''s''), (''data_base64'', VStr ''eHl6'')])
       ''data_base64'' = Some (VStr ''eHl6'')"
    by (simp add: lower_keys_def lower_def lower_char_def)
  have h2: "b64decode example_env ''eHl6'' = Some ''xyz''"
    by (simp add: example_env_def b64decode_std_xyz)
  have h3: "init example_env (Some [(''type'', VStr ''t''), (''source'', VStr ''s''), (''data_base64'', VStr ''eHl6'')])
         VNone [] = Inr decoded_event"
    by (simp add: eval_defs b64decode_std_xyz)
  show ?thesis
    using h1 h2 h3 init_data_base64 [OF h1 h2, of VNone "\<lambda>v. v"]
    by blast
qed

text \<open>
  C3. The tree that the JSON serialization hook returns is the result of parsing the
  bytes that \<^verbatim>\<open>to_json\<close> returns for the same event; when \<^verbatim>\<open>to_json\<close> raises, the hook
  raises the same error. The hook reads the event through \<^verbatim>\<open>to_json\<close> only.
\<close>

theorem ce_json_dumps_parses_to_json:
  "ce_json_dumps to_json json_loads e =
     (case to_json e of Inl err \<Rightarrow> Inl err | Inr bytes \<Rightarrow> json_loads bytes)"
  by (simp add: ce_json_dumps_def)

text \<open>
  C4. The attribute map is claimed to have exactly the keys of the stored attributes
  other than \<^verbatim>\<open>data\<close> and \<^verbatim>\<open>data_base64\<close>. The source builds it from
  \<^verbatim>\<open>self.__dict__\<close>, where the framework keeps the declared fields only, so an extension
  attribute is a stored attribute that the attribute map does not have. The code on the
  event constructed from
  \<^verbatim>\<open>{"type": "t", "source": "s", "comexampleextension1": "value"}\<close>:
\<close>

theorem get_attributes_drops_extension:
  "init example_env
         (Some [(''type'', VStr ''t''), (''source'', VStr ''s''), (''comexampleextension1'', VStr ''value'')])
         VNone []
       = Inr (extended_event ''comexampleextension1'' (VStr ''value''))
   \<and> map_of (extended_event ''comexampleextension1'' (VStr ''value'')) ''comexampleextension1''
       = Some (VStr ''value'')
   \<and> keys (get_attributes (\<lambda>v. v) (extended_event ''comexampleextension1'' (VStr ''value'')))
       = [''source'', ''id'', ''type'', ''specversion'', ''time'', ''subject'', ''datacontenttype'',
          ''dataschema'']
   \<and> ''comexampleextension1'' \<notin> set (keys (get_attributes (\<lambda>v. v)
         (extended_event ''comexampleextension1'' (VStr ''value''))))"
  by (simp add: eval_defs get_attributes_def instance_dict_def)




text \<open>
  C6. Deleting a key that is not a stored attribute is claimed to fail with the
  condition that deleting \<^verbatim>\<open>data\<close> fails with, a \<^verbatim>\<open>KeyError\<close>, as the docstring of
  \<^verbatim>\<open>__delitem__\<close> asks. The source leaves that case to \<^verbatim>\<open>delattr\<close>, which raises
  \<^verbatim>\<open>AttributeError\<close>. The code on the event constructed from
  \<^verbatim>\<open>{"type": "t", "source": "s"}\<close>, which has no attribute \<^verbatim>\<open>comexampleextension1\<close>:
\<close>

theorem delitem_missing_key_attribute_error:
  "init example_env (Some [(''type'', VStr ''t''), (''source'', VStr ''s'')]) VNone [] = Inr minimal_event
   \<and> ''comexampleextension1'' \<notin> set (keys minimal_event)
   \<and> delitem minimal_event ''comexampleextension1'' = Inl (AttributeError ''comexampleextension1'')
   \<and> delitem minimal_event ''comexampleextension1'' \<noteq> Inl (KeyError ''comexampleextension1'')
   \<and> delitem minimal_event ''data'' = Inl (KeyError ''data'')"
  by (simp add: eval_defs delitem_def delattr_def)



text \<open>
  C8. Construction from the mapping \<^verbatim>\<open>{"type": "t", "source": "s"}\<close> returns an event.
  Its \<^verbatim>\<open>id\<close> is what the default-id algorithm returned, which is not empty when the
  algorithm returns a non-empty string; its \<^verbatim>\<open>time\<close> is the timestamp the default-time
  algorithm returned, not \<^verbatim>\<open>None\<close>; its \<^verbatim>\<open>specversion\<close> is \<^verbatim>\<open>"1.0"\<close>. The three values
  are stored in the event that construction returns.
\<close>

theorem init_defaults:
  "default_id env \<noteq> [] \<longrightarrow>
   (\<exists>e i t. init env (Some [(''type'', VStr ''t''), (''source'', VStr ''s'')]) VNone [] = Inr e
      \<and> map_of e ''id'' = Some (VStr i) \<and> i \<noteq> [] \<and> i = default_id env
      \<and> map_of e ''time'' = Some (VTime t) \<and> VTime t \<noteq> VNone \<and> t = default_time env
      \<and> map_of e ''specversion'' = Some (VStr ''1.0''))"
  by (simp add: init_def base_init_def keys_def lower_keys_def dict_update_def lower_def lower_char_def
      model_validate_def field_errors_def field_values_def model_fields_def validate_field_def
      extras_def field_names_def default_value_def DEFAULT_SPECVERSION_def)

theorem init_defaults_witness:
  "default_id example_env \<noteq> []
   \<and> init example_env (Some [(''type'', VStr ''t''), (''source'', VStr ''s'')]) VNone [] = Inr minimal_event
   \<and> map_of minimal_event ''id'' = Some (VStr (default_id example_env))
   \<and> map_of minimal_event ''time'' = Some (VTime (default_time example_env))
   \<and> map_of minimal_event ''specversion'' = Some (VStr ''1.0'')"
  using init_defaults [of example_env]
  by (simp add: eval_defs)

text \<open>
  C9. Setting the key \<^verbatim>\<open>data_base64\<close> through \<^verbatim>\<open>__setitem__\<close> decodes nothing: it raises
  nothing, the payload is what it was, and the value is stored as it is under the
  attribute \<^verbatim>\<open>data_base64\<close>.
\<close>

theorem setitem_data_base64_stored_verbatim:
  "\<exists>e'. setitem e ''data_base64'' v = Inr e'
        \<and> get_data e' = get_data e
        \<and> map_of e' ''data_base64'' = Some v"
  by (simp add: setitem_def setattr_def get_data_update_other update_conv')

text \<open>
  C10. An attribute mapping that is given but empty does not count as given: for every
  set of keyword fields, construction with the empty mapping and the keyword fields
  returns what construction from the keyword fields alone returns, and it
  does not raise \<^verbatim>\<open>IncompatibleArgumentsError\<close>.
\<close>

theorem init_empty_mapping_is_no_mapping:
  "init env (Some []) data kwargs = init env None data kwargs
   \<and> init env (Some []) data kwargs \<noteq> Inl IncompatibleArgumentsError"
  by (simp add: init_def base_init_not_incompatible)

end
